theory Spec2Isabelle
  imports Main "HOL-Library.Sublist"
begin

section \<open>JavaScript values and the two configuration modules\<close>

text \<open>
  Both configuration files assign one object literal to \<^verbatim>\<open>module.exports\<close>. The literals
  are built from strings, arrays and nested objects only. An object keeps its properties in
  the order they are written; a property written twice would take the later value, so the
  lookup reads the list from its end. \<^verbatim>\<open>undefined\<close> occurs in no literal; it is the value
  of a parameter that a call leaves without argument.
\<close>

datatype js = JUndefined | JStr string | JArr "js list" | JObj "(string \<times> js) list"

fun get_prop :: "js \<Rightarrow> string \<Rightarrow> js option" where
  "get_prop (JObj kvs) k = map_of (rev kvs) k"
| "get_prop (JStr s) k = None"
| "get_prop (JArr xs) k = None"
| "get_prop JUndefined k = None"

fun get_path :: "js \<Rightarrow> string list \<Rightarrow> js option" where
  "get_path v [] = Some v"
| "get_path v (k # ks) = (case get_prop v k of None \<Rightarrow> None | Some w \<Rightarrow> get_path w ks)"

text \<open>\<^verbatim>\<open>next.config.js\<close>: the object exported by the build-tool configuration.\<close>

definition next_config :: js where
  "next_config =
     JObj [(''experimental'',
       JObj [(''allowedDevOrigins'',
         JArr [JStr ''http://localhost:3000'',
               JStr ''http://localhost:3001'',
               JStr ''http://localhost:3002'',
               JStr ''http://localhost:3003''])])]"

text \<open>
  The CSS-utility configuration. The two further globs of the source are inside line
  comments and so are not elements of \<^verbatim>\<open>content\<close>.
\<close>

definition tailwind_config :: js where
  "tailwind_config =
     JObj [(''content'', JArr [JStr ''./app/**/*.{js,ts,jsx,tsx}'']),
           (''theme'', JObj [(''extend'', JObj [])]),
           (''plugins'', JArr [])]"

text \<open>
  Reading an origin: the decimal port that follows the prefix \<^verbatim>\<open>http://localhost:\<close>,
  when the string has that shape.
\<close>

definition digit_val :: "char \<Rightarrow> nat option" where
  "digit_val c =
     (let n = (of_char c :: nat) in if 48 \<le> n \<and> n \<le> 57 then Some (n - 48) else None)"

fun decimal :: "nat \<Rightarrow> string \<Rightarrow> nat option" where
  "decimal acc [] = Some acc"
| "decimal acc (c # cs) =
     (case digit_val c of None \<Rightarrow> None | Some d \<Rightarrow> decimal (10 * acc + d) cs)"

definition localhost_port :: "string \<Rightarrow> nat option" where
  "localhost_port s =
     (if prefix ''http://localhost:'' s \<and> length ''http://localhost:'' < length s
      then decimal 0 (drop (length ''http://localhost:'') s) else None)"

section \<open>The page component\<close>

text \<open>
  \<^verbatim>\<open>app/page.tsx\<close> declares one function, whose body returns one JSX expression. The
  expression is kept as it is written, with the text between the tags including its line
  breaks and indentation. JSX has three kinds of child (text, a nested element, an
  expression in braces) and two kinds of attribute value (a string literal, an expression
  in braces); the expressions modelled are references to an identifier.
\<close>

datatype jsx_attr = StringLiteral string | AttrExpression string

datatype jsx = JSXElement string "(string \<times> jsx_attr) list" "jsx_child list"
  and jsx_child = JSXText string | JSXChild jsx | JSXExpressionContainer string

datatype node = Text string | Element string "(string \<times> js) list" "node list"

datatype error =
    ReferenceError string
  | InvalidElementType string js
  | InvalidChild js

type_synonym scope = "string \<Rightarrow> js option"

text \<open>
  JSX text: the text is cut into lines; tabs count as spaces; every line but the first
  loses its leading spaces and every line but the last its trailing spaces; lines left
  empty are dropped, and the others are joined by one space. Text that comes out empty is
  no child at all.
\<close>

definition is_line_break :: "char \<Rightarrow> string \<Rightarrow> bool" where
  "is_line_break c cs =
     (c = CHR 0x0A \<or>
      (c = CHR 0x0D \<and> (case cs of [] \<Rightarrow> True | d # _ \<Rightarrow> d \<noteq> CHR 0x0A)))"

fun split_lines :: "string \<Rightarrow> string list" where
  "split_lines [] = [[]]"
| "split_lines (c # cs) =
     (if is_line_break c cs then [] # split_lines cs
      else if c = CHR 0x0D then split_lines cs
      else (case split_lines cs of [] \<Rightarrow> [[c]] | l # ls \<Rightarrow> (c # l) # ls))"

definition blank :: "char \<Rightarrow> bool" where
  "blank c = (c = CHR '' '' \<or> c = CHR 0x09)"

fun last_non_empty :: "nat \<Rightarrow> nat \<Rightarrow> string list \<Rightarrow> nat" where
  "last_non_empty i acc [] = acc"
| "last_non_empty i acc (l # ls) =
     last_non_empty (Suc i) (if list_ex (\<lambda>c. \<not> blank c) l then i else acc) ls"

definition trim_line :: "bool \<Rightarrow> bool \<Rightarrow> string \<Rightarrow> string" where
  "trim_line is_first is_last l =
     (let t0 = map (\<lambda>c. if c = CHR 0x09 then CHR '' '' else c) l;
          t1 = (if is_first then t0 else dropWhile (\<lambda>c. c = CHR '' '') t0)
      in if is_last then t1 else rev (dropWhile (\<lambda>c. c = CHR '' '') (rev t1)))"

fun join_lines :: "nat \<Rightarrow> nat \<Rightarrow> nat \<Rightarrow> string list \<Rightarrow> string" where
  "join_lines i n lne [] = []"
| "join_lines i n lne (l # ls) =
     (let t = trim_line (i = 0) (Suc i = n) l
      in (if t = [] then [] else if i = lne then t else t @ '' '')
         @ join_lines (Suc i) n lne ls)"

definition cleanJSXText :: "string \<Rightarrow> string" where
  "cleanJSXText s =
     (let ls = split_lines s in join_lines 0 (length ls) (last_non_empty 0 0 ls) ls)"

text \<open>
  Evaluating a JSX expression in a scope, left to right: the tag, the attributes, the
  children. A tag that starts with a lower-case letter is the name of a built-in element;
  any other tag is an identifier, read from the scope, and must stand for a tag name (the
  values here hold no function). Reading an identifier that the scope does not bind throws.
  A string value in child position is text, an array stands for its items in order,
  \<^verbatim>\<open>undefined\<close> shows nothing, and an object is refused.
\<close>

definition intrinsic :: "string \<Rightarrow> bool" where
  "intrinsic tag =
     (case tag of [] \<Rightarrow> False
      | c # _ \<Rightarrow> 97 \<le> (of_char c :: nat) \<and> (of_char c :: nat) \<le> 122)"

definition resolve_tag :: "scope \<Rightarrow> string \<Rightarrow> error + string" where
  "resolve_tag sc tag =
     (if intrinsic tag then Inr tag
      else (case sc tag of
              None \<Rightarrow> Inl (ReferenceError tag)
            | Some (JStr s) \<Rightarrow> Inr s
            | Some v \<Rightarrow> Inl (InvalidElementType tag v)))"

fun eval_attrs :: "scope \<Rightarrow> (string \<times> jsx_attr) list \<Rightarrow> error + (string \<times> js) list" where
  "eval_attrs sc [] = Inr []"
| "eval_attrs sc ((k, StringLiteral s) # as) =
     (case eval_attrs sc as of Inl e \<Rightarrow> Inl e | Inr ps \<Rightarrow> Inr ((k, JStr s) # ps))"
| "eval_attrs sc ((k, AttrExpression x) # as) =
     (case sc x of
        None \<Rightarrow> Inl (ReferenceError x)
      | Some v \<Rightarrow>
          (case eval_attrs sc as of Inl e \<Rightarrow> Inl e | Inr ps \<Rightarrow> Inr ((k, v) # ps)))"

fun value_children :: "js \<Rightarrow> error + node list"
  and values_children :: "js list \<Rightarrow> error + node list" where
  "value_children JUndefined = Inr []"
| "value_children (JStr s) = Inr [Text s]"
| "value_children (JArr vs) = values_children vs"
| "value_children (JObj kvs) = Inl (InvalidChild (JObj kvs))"
| "values_children [] = Inr []"
| "values_children (v # vs) =
     (case value_children v of
        Inl e \<Rightarrow> Inl e
      | Inr ns \<Rightarrow> (case values_children vs of Inl e \<Rightarrow> Inl e | Inr ms \<Rightarrow> Inr (ns @ ms)))"

fun createElement :: "scope \<Rightarrow> jsx \<Rightarrow> error + node"
  and createChild :: "scope \<Rightarrow> jsx_child \<Rightarrow> error + node list"
  and createChildren :: "scope \<Rightarrow> jsx_child list \<Rightarrow> error + node list" where
  "createElement sc (JSXElement tag attrs cs) =
     (case resolve_tag sc tag of
        Inl e \<Rightarrow> Inl e
      | Inr t \<Rightarrow>
          (case eval_attrs sc attrs of
             Inl e \<Rightarrow> Inl e
           | Inr ps \<Rightarrow>
               (case createChildren sc cs of
                  Inl e \<Rightarrow> Inl e
                | Inr ns \<Rightarrow> Inr (Element t ps ns))))"
| "createChild sc (JSXText s) =
     (let t = cleanJSXText s in Inr (if t = [] then [] else [Text t]))"
| "createChild sc (JSXChild e) =
     (case createElement sc e of Inl err \<Rightarrow> Inl err | Inr n \<Rightarrow> Inr [n])"
| "createChild sc (JSXExpressionContainer x) =
     (case sc x of None \<Rightarrow> Inl (ReferenceError x) | Some v \<Rightarrow> value_children v)"
| "createChildren sc [] = Inr []"
| "createChildren sc (c # cs) =
     (case createChild sc c of
        Inl e \<Rightarrow> Inl e
      | Inr ns \<Rightarrow> (case createChildren sc cs of Inl e \<Rightarrow> Inl e | Inr ms \<Rightarrow> Inr (ns @ ms)))"

text \<open>
  A JSX expression that names no identifier: every tag is built-in, every attribute value
  is a string literal, and no child is an expression in braces.
\<close>

fun literal_attr :: "string \<times> jsx_attr \<Rightarrow> bool" where
  "literal_attr (k, StringLiteral s) = True"
| "literal_attr (k, AttrExpression x) = False"

fun names_nothing :: "jsx \<Rightarrow> bool"
  and child_names_nothing :: "jsx_child \<Rightarrow> bool"
  and children_name_nothing :: "jsx_child list \<Rightarrow> bool" where
  "names_nothing (JSXElement tag attrs cs) =
     (intrinsic tag \<and> list_all literal_attr attrs \<and> children_name_nothing cs)"
| "child_names_nothing (JSXText s) = True"
| "child_names_nothing (JSXChild e) = names_nothing e"
| "child_names_nothing (JSXExpressionContainer x) = False"
| "children_name_nothing [] = True"
| "children_name_nothing (c # cs) = (child_names_nothing c \<and> children_name_nothing cs)"

text \<open>The expression after \<^verbatim>\<open>return\<close> in \<^verbatim>\<open>Home\<close>, as written.\<close>

definition Home_jsx :: jsx where
  "Home_jsx =
     JSXElement ''main''
       [(''className'', StringLiteral
         ''flex min-h-screen flex-col items-center justify-center p-12 text-center'')]
       [JSXText ''\<newline>      '',
        JSXChild (JSXElement ''h1''
          [(''className'', StringLiteral ''text-4xl font-bold mb-6'')]
          [JSXText ''NBA Bad Call Tracker'']),
        JSXText ''\<newline>      '',
        JSXChild (JSXElement ''p''
          [(''className'', StringLiteral ''text-lg text-gray-600 dark:text-gray-300 max-w-xl'')]
          [JSXText ''\<newline>        Track and review questionable referee decisions in the final moments of NBA games.\<newline>      '']),
        JSXText ''\<newline>    '']"

text \<open>
  A function declaration is its list of parameters and, for a body that is one
  \<^verbatim>\<open>return\<close>, the returned expression. \<^verbatim>\<open>Home\<close> is declared with an empty list.
\<close>

record fundecl =
  params :: "string list"
  body :: jsx

definition Home :: fundecl where
  "Home = \<lparr>params = [], body = Home_jsx\<rparr>"

text \<open>
  A call binds the parameters, in order, to the arguments the caller passes, over the scope
  the function was declared in: a parameter without argument is \<^verbatim>\<open>undefined\<close>, an
  argument without parameter has no name. The call throws when evaluating the returned
  expression throws, and returns its value otherwise.
\<close>

fun bind_params :: "string list \<Rightarrow> js list \<Rightarrow> scope \<Rightarrow> scope" where
  "bind_params [] args sc = sc"
| "bind_params (p # ps) [] sc = bind_params ps [] (sc(p \<mapsto> JUndefined))"
| "bind_params (p # ps) (a # as) sc = bind_params ps as (sc(p \<mapsto> a))"

definition call :: "scope \<Rightarrow> fundecl \<Rightarrow> js list \<Rightarrow> error + node" where
  "call sc f args = createElement (bind_params (params f) args sc) (body f)"

text \<open>
  A page view renders the component once and may render it again any number of times, each
  time in the scope and with the arguments of that moment.
\<close>

definition page_view :: "fundecl \<Rightarrow> (scope \<times> js list) list \<Rightarrow> (error + node) list" where
  "page_view f rs = map (\<lambda>(sc, args). call sc f args) rs"

text \<open>
  What the three modules export: the page module the function, each configuration module
  its object. The operations of the repository are the exported functions.
\<close>

datatype export = ExportFunction fundecl | ExportValue js

definition module_exports :: "export list" where
  "module_exports =
     [ExportFunction Home, ExportValue next_config, ExportValue tailwind_config]"

fun operations :: "export list \<Rightarrow> fundecl list" where
  "operations [] = []"
| "operations (ExportFunction f # xs) = f # operations xs"
| "operations (ExportValue v # xs) = operations xs"

section \<open>Reading the returned markup\<close>

fun tag_of :: "node \<Rightarrow> string" where
  "tag_of (Element t a cs) = t"
| "tag_of (Text s) = []"

fun elements :: "node \<Rightarrow> node list" where
  "elements (Text s) = []"
| "elements (Element t a cs) = Element t a cs # concat (map elements cs)"

fun text_content :: "node \<Rightarrow> string" where
  "text_content (Text s) = s"
| "text_content (Element t a cs) = concat (map text_content cs)"

definition is_heading :: "string \<Rightarrow> bool" where
  "is_heading t = (t \<in> {''h1'', ''h2'', ''h3'', ''h4'', ''h5'', ''h6''})"

definition headings :: "node \<Rightarrow> node list" where
  "headings n = filter (\<lambda>e. is_heading (tag_of e)) (elements n)"

definition paragraphs :: "node \<Rightarrow> node list" where
  "paragraphs n = filter (\<lambda>e. tag_of e = ''p'') (elements n)"

section \<open>The glob language of the content list\<close>

text \<open>
  The entries of \<^verbatim>\<open>content\<close> are read by the CSS tool, not by code of this repository.
  What follows is the part of its pattern language that the one entry uses: a leading
  \<^verbatim>\<open>./\<close> is dropped from pattern and path; \<^verbatim>\<open>{a,b}\<close> stands for each of its
  alternatives; paths and patterns are compared segment by segment, split at \<^verbatim>\<open>/\<close>; a
  segment \<^verbatim>\<open>**\<close> stands for any number of directories, also none; \<^verbatim>\<open>*\<close> stands for
  any run of characters inside one segment. Neither wildcard takes a segment that starts
  with a dot, and no pattern segment takes an empty one.
\<close>

definition strip_dot_slash :: "string \<Rightarrow> string" where
  "strip_dot_slash p = (if take 2 p = ''./'' then drop 2 p else p)"

fun split_on :: "char \<Rightarrow> string \<Rightarrow> string list" where
  "split_on d [] = [[]]"
| "split_on d (c # cs) =
     (if c = d then [] # split_on d cs
      else (case split_on d cs of [] \<Rightarrow> [[c]] | l # ls \<Rightarrow> (c # l) # ls))"

function brace_expand :: "string \<Rightarrow> string list" where
  "brace_expand p =
     (let pre = takeWhile (\<lambda>c. c \<noteq> CHR ''{'') p;
          rest = dropWhile (\<lambda>c. c \<noteq> CHR ''{'') p
      in if rest = [] then [p]
         else let body = takeWhile (\<lambda>c. c \<noteq> CHR ''}'') (tl rest);
                  post = drop 1 (dropWhile (\<lambda>c. c \<noteq> CHR ''}'') (tl rest))
              in concat (map (\<lambda>alt. map (\<lambda>q. pre @ alt @ q) (brace_expand post))
                           (split_on CHR '','' body)))"
  by pat_completeness auto
termination
proof (relation "measure length")
  show "wf (measure length)" by simp
next
  fix p :: string and pre rest body post
  assume r: "rest = dropWhile (\<lambda>c. c \<noteq> CHR ''{'') p" and ne: "rest \<noteq> []"
    and po: "post = drop 1 (dropWhile (\<lambda>c. c \<noteq> CHR ''}'') (tl rest))"
  have "length post \<le> length (dropWhile (\<lambda>c. c \<noteq> CHR ''}'') (tl rest))"
    using po by simp
  also have "\<dots> \<le> length (tl rest)" by (rule length_dropWhile_le)
  also have "\<dots> < length rest" using ne by (cases rest) simp_all
  also have "\<dots> \<le> length p" using r by (simp add: length_dropWhile_le)
  finally show "(post, p) \<in> measure length" by simp
qed

definition hidden :: "string \<Rightarrow> bool" where
  "hidden s = (case s of [] \<Rightarrow> False | c # _ \<Rightarrow> c = CHR ''.'')"

fun wild_match :: "string \<Rightarrow> string \<Rightarrow> bool" where
  "wild_match [] s = (s = [])"
| "wild_match (p # ps) s =
     (if p = CHR ''*''
      then wild_match ps s \<or> (case s of [] \<Rightarrow> False | _ # s' \<Rightarrow> wild_match (p # ps) s')
      else (case s of [] \<Rightarrow> False | c # s' \<Rightarrow> c = p \<and> wild_match ps s'))"

definition seg_match :: "string \<Rightarrow> string \<Rightarrow> bool" where
  "seg_match p s =
     (s \<noteq> [] \<and> (if hidden s \<and> \<not> hidden p then False else wild_match p s))"

fun segs_match :: "string list \<Rightarrow> string list \<Rightarrow> bool" where
  "segs_match [] ss = (ss = [])"
| "segs_match (p # ps) ss =
     (if p = ''**''
      then segs_match ps ss \<or>
           (case ss of [] \<Rightarrow> False
            | s # ss' \<Rightarrow> s \<noteq> [] \<and> \<not> hidden s \<and> segs_match (p # ps) ss')
      else (case ss of [] \<Rightarrow> False | s # ss' \<Rightarrow> seg_match p s \<and> segs_match ps ss'))"

definition glob_match :: "string \<Rightarrow> string \<Rightarrow> bool" where
  "glob_match pat path =
     list_ex
       (\<lambda>q. segs_match (split_on CHR ''/'' q) (split_on CHR ''/'' (strip_dot_slash path)))
       (brace_expand (strip_dot_slash pat))"

section \<open>The markup returned by the page component\<close>

lemma Home_returns:
  "call sc Home args = Inr (Element ''main''
     [(''className'',
       JStr ''flex min-h-screen flex-col items-center justify-center p-12 text-center'')]
     [Element ''h1'' [(''className'', JStr ''text-4xl font-bold mb-6'')]
        [Text ''NBA Bad Call Tracker''],
      Element ''p''
        [(''className'', JStr ''text-lg text-gray-600 dark:text-gray-300 max-w-xl'')]
        [Text ''Track and review questionable referee decisions in the final moments of NBA games.'']])"
  by (simp add: call_def Home_def Home_jsx_def resolve_tag_def intrinsic_def
      cleanJSXText_def trim_line_def is_line_break_def blank_def)

text \<open>
  An expression that names no identifier has the same value in every scope, and evaluating
  it does not throw. The expression that \<^verbatim>\<open>Home\<close> returns is one.
\<close>

lemma eval_attrs_literal:
  "list_all literal_attr as \<Longrightarrow>
   eval_attrs sc as = eval_attrs sc' as \<and> (\<exists>ps. eval_attrs sc as = Inr ps)"
proof (induction as)
  case Nil
  show ?case by simp
next
  case (Cons a as)
  obtain k v where a: "a = (k, v)" by (cases a)
  from Cons.prems a obtain s where v: "v = StringLiteral s" by (cases v) simp_all
  from Cons.prems have "list_all literal_attr as" by simp
  from Cons.IH [OF this]
  have "eval_attrs sc as = eval_attrs sc' as" "\<exists>ps. eval_attrs sc as = Inr ps"
    by blast+
  then show ?case using a v by auto
qed

lemma names_nothing_static:
  "names_nothing j \<Longrightarrow>
     createElement sc j = createElement sc' j \<and> (\<exists>n. createElement sc j = Inr n)"
  "child_names_nothing c \<Longrightarrow>
     createChild sc c = createChild sc' c \<and> (\<exists>ns. createChild sc c = Inr ns)"
  "children_name_nothing cs \<Longrightarrow>
     createChildren sc cs = createChildren sc' cs \<and> (\<exists>ns. createChildren sc cs = Inr ns)"
proof (induction j and c and cs rule: names_nothing_child_names_nothing_children_name_nothing.induct)
  case (1 tag attrs cs)
  from "1.prems" have t: "intrinsic tag" and a: "list_all literal_attr attrs"
    and n: "children_name_nothing cs"
    by simp_all
  from "1.IH" [OF n]
  have c: "createChildren sc cs = createChildren sc' cs" "\<exists>ns. createChildren sc cs = Inr ns"
    by blast+
  from eval_attrs_literal [OF a, of sc sc']
  have "eval_attrs sc attrs = eval_attrs sc' attrs" "\<exists>ps. eval_attrs sc attrs = Inr ps"
    by blast+
  with t c show ?case by (auto simp: resolve_tag_def)
next
  case (2 s)
  show ?case by (simp add: Let_def)
next
  case (3 e)
  from "3.prems" have "names_nothing e" by simp
  from "3.IH" [OF this]
  obtain n where "createElement sc e = Inr n" "createElement sc' e = Inr n"
    by metis
  then show ?case by simp
next
  case (4 x)
  then show ?case by simp
next
  case 5
  show ?case by simp
next
  case (6 c cs)
  from "6.prems" have "child_names_nothing c" "children_name_nothing cs" by simp_all
  from "6.IH" (1) [OF this(1)] "6.IH" (2) [OF this(2)]
  obtain ns ms where "createChild sc c = Inr ns" "createChild sc' c = Inr ns"
    "createChildren sc cs = Inr ms" "createChildren sc' cs = Inr ms"
    by metis
  then show ?case by simp
qed

lemma Home_jsx_names_nothing: "names_nothing Home_jsx"
  by (simp add: Home_jsx_def intrinsic_def)

text \<open>
  The evaluation does read the scope and the arguments, and does throw, for a body that
  gives it the occasion: a component that shows its parameter returns what it is passed,
  and one that names an identifier nobody binds throws.
\<close>

lemma call_reads_argument:
  "call sc \<lparr>params = [''title''], body = JSXElement ''h1'' [] [JSXExpressionContainer ''title'']\<rparr>
     [JStr t] = Inr (Element ''h1'' [] [Text t])"
  by (simp add: call_def resolve_tag_def intrinsic_def)

lemma call_reads_scope:
  "call (Map.empty(''title'' \<mapsto> v))
     \<lparr>params = [], body = JSXElement ''h1'' [(''title'', AttrExpression ''title'')] []\<rparr> args
     = Inr (Element ''h1'' [(''title'', v)] [])"
  by (simp add: call_def resolve_tag_def intrinsic_def)

lemma call_throws_unbound:
  "call Map.empty \<lparr>params = [], body = JSXElement ''h1'' [] [JSXExpressionContainer ''title'']\<rparr>
     args = Inl (ReferenceError ''title'')"
  by (simp add: call_def resolve_tag_def intrinsic_def)

lemma call_throws_component:
  "call Map.empty \<lparr>params = [], body = JSXElement ''Header'' [] []\<rparr> args
     = Inl (ReferenceError ''Header'')"
  by (simp add: call_def resolve_tag_def intrinsic_def)

lemma call_throws_object_child:
  "call sc \<lparr>params = [''data''], body = JSXElement ''p'' [] [JSXExpressionContainer ''data'']\<rparr>
     [JObj kvs] = Inl (InvalidChild (JObj kvs))"
  by (simp add: call_def resolve_tag_def intrinsic_def)

text \<open>
  Claim C1. In whatever scope and with whatever arguments it is called, \<^verbatim>\<open>Home\<close> returns
  markup in which the heading elements (\<^verbatim>\<open>h1\<close> to \<^verbatim>\<open>h6\<close>, anywhere in the tree)
  are exactly one: the \<^verbatim>\<open>h1\<close> whose only child is the text "NBA Bad Call Tracker".
\<close>

theorem home_single_heading:
  "\<exists>m h. call sc Home args = Inr m \<and> headings m = [h] \<and> length (headings m) = 1 \<and>
     h = Element ''h1'' [(''className'', JStr ''text-4xl font-bold mb-6'')]
           [Text ''NBA Bad Call Tracker''] \<and>
     text_content h = ''NBA Bad Call Tracker''"
  by (simp add: Home_returns headings_def is_heading_def)

text \<open>
  Claim C2. The returned markup has exactly one \<^verbatim>\<open>p\<close> element, anywhere in the tree,
  and its only child is the text "Track and review questionable referee decisions in the
  final moments of NBA games.": the line break and indentation around the sentence in the
  source are not part of it.
\<close>

theorem home_single_paragraph:
  "\<exists>m p a. call sc Home args = Inr m \<and> paragraphs m = [p] \<and>
     length (paragraphs m) = 1 \<and>
     p = Element ''p'' a
           [Text ''Track and review questionable referee decisions in the final moments of NBA games.''] \<and>
     text_content p =
       ''Track and review questionable referee decisions in the final moments of NBA games.''"
  by (simp add: Home_returns paragraphs_def)

text \<open>
  Claim C6. \<^verbatim>\<open>Home\<close> declares no parameter, and the expression it returns names no
  identifier: its tags are built-in, its attribute values are string literals, its
  children are text and elements. So the value of a call depends neither on the scope nor
  on the arguments: any two calls return the same markup, one fixed value, and every
  render of a page view, the first and each later one, gives that same value.
\<close>

theorem home_deterministic:
  "params Home = [] \<and> names_nothing (body Home) \<and>
   call sc Home args = call sc' Home args' \<and>
   (\<exists>m. \<forall>s a. call s Home a = Inr m) \<and>
   page_view Home rs = replicate (length rs) (call sc Home args)"
proof -
  have par: "params Home = []" and nn: "names_nothing (body Home)"
    by (simp_all add: Home_def Home_jsx_names_nothing)
  have unfolded: "call s Home a = createElement s (body Home)" for s a
    by (simp add: call_def par)
  from names_nothing_static(1) [OF nn]
  obtain m where m: "createElement sc (body Home) = Inr m"
    by blast
  have ret: "call s Home a = Inr m" for s a
    using names_nothing_static(1) [OF nn, of s sc] m by (simp add: unfolded)
  have "page_view Home rs = map (\<lambda>r. Inr m) rs"
    unfolding page_view_def by (simp add: ret case_prod_beta)
  then have view: "page_view Home rs = replicate (length rs) (call sc Home args)"
    by (simp add: map_replicate_const ret)
  have fixed: "\<exists>m. \<forall>s a. call s Home a = Inr m"
    using ret by blast
  have same: "call sc Home args = call sc' Home args'"
    by (simp add: ret)
  from par nn same fixed view show ?thesis
    by blast
qed

text \<open>
  Claim C7. The modules of the repository export one function, \<^verbatim>\<open>Home\<close>, and two
  objects that hold no function; so \<^verbatim>\<open>Home\<close> is the only operation. It never fails: in
  every scope and with every list of arguments the call returns markup, and none of the
  errors that evaluating JSX can throw (an unbound identifier, a tag that is no element
  type, an object in child position) is its result.
\<close>

theorem home_never_fails:
  "operations module_exports = [Home] \<and>
   (\<exists>m. call sc Home args = Inr m) \<and>
   call sc Home args \<noteq> Inl e"
  by (simp add: Home_returns module_exports_def)

text \<open>
  Claim C8. The root of the returned markup is one \<^verbatim>\<open>main\<close> element with exactly two
  children, in this order: the \<^verbatim>\<open>h1\<close> heading, then the \<^verbatim>\<open>p\<close> paragraph. They are
  the heading and the paragraph of the whole tree.
\<close>

theorem home_root_main:
  "\<exists>attrs h p. call sc Home args = Inr (Element ''main'' attrs [h, p]) \<and>
     tag_of h = ''h1'' \<and> tag_of p = ''p'' \<and>
     headings (Element ''main'' attrs [h, p]) = [h] \<and>
     paragraphs (Element ''main'' attrs [h, p]) = [p]"
  by (simp add: Home_returns headings_def paragraphs_def is_heading_def)

section \<open>The configuration data\<close>

text \<open>
  Claim C3. The value at \<^verbatim>\<open>experimental.allowedDevOrigins\<close> of the build configuration
  is the array of exactly four strings, the localhost origins of ports 3000, 3001, 3002
  and 3003, in that order.
\<close>

theorem allowed_dev_origins_exact:
  "\<exists>xs. get_path next_config [''experimental'', ''allowedDevOrigins''] = Some (JArr xs) \<and>
     length xs = 4 \<and>
     xs = [JStr ''http://localhost:3000'', JStr ''http://localhost:3001'',
           JStr ''http://localhost:3002'', JStr ''http://localhost:3003'']"
  by (simp add: next_config_def)

text \<open>
  Claim C4. The value at \<^verbatim>\<open>content\<close> of the CSS-utility configuration is an array of
  exactly one element, the pattern \<^verbatim>\<open>./app/**/*.{js,ts,jsx,tsx}\<close>.
\<close>

theorem content_single_glob:
  "\<exists>xs. get_path tailwind_config [''content''] = Some (JArr xs) \<and> length xs = 1 \<and>
     xs = [JStr ''./app/**/*.{js,ts,jsx,tsx}'']"
  by (simp add: tailwind_config_def)

text \<open>
  Claim C5. In the CSS-utility configuration, \<^verbatim>\<open>theme.extend\<close> is the object with no
  property and \<^verbatim>\<open>plugins\<close> is the array with no element.
\<close>

theorem theme_extend_and_plugins_empty:
  "get_path tailwind_config [''theme'', ''extend''] = Some (JObj []) \<and>
   get_path tailwind_config [''plugins''] = Some (JArr [])"
  by (simp add: tailwind_config_def)

text \<open>
  Claim C9. The allowed-dev-origin array holds strings only; each begins with
  \<^verbatim>\<open>http://localhost:\<close>, no string occurs twice, and the ports they name are 3000, 3001,
  3002 and 3003, pairwise distinct.
\<close>

theorem origins_localhost_distinct:
  "\<exists>os. get_path next_config [''experimental'', ''allowedDevOrigins'']
           = Some (JArr (map JStr os)) \<and>
     list_all (prefix ''http://localhost:'') os \<and> distinct os \<and>
     map localhost_port os = [Some 3000, Some 3001, Some 3002, Some 3003] \<and>
     distinct (map localhost_port os)"
proof (rule exI [of _ "[''http://localhost:3000'', ''http://localhost:3001'',
     ''http://localhost:3002'', ''http://localhost:3003'']"])
  show "get_path next_config [''experimental'', ''allowedDevOrigins'']
           = Some (JArr (map JStr [''http://localhost:3000'', ''http://localhost:3001'',
               ''http://localhost:3002'', ''http://localhost:3003''])) \<and>
     list_all (prefix ''http://localhost:'') [''http://localhost:3000'',
       ''http://localhost:3001'', ''http://localhost:3002'', ''http://localhost:3003''] \<and>
     distinct [''http://localhost:3000'', ''http://localhost:3001'',
       ''http://localhost:3002'', ''http://localhost:3003''] \<and>
     map localhost_port [''http://localhost:3000'', ''http://localhost:3001'',
       ''http://localhost:3002'', ''http://localhost:3003'']
       = [Some 3000, Some 3001, Some 3002, Some 3003] \<and>
     distinct (map localhost_port [''http://localhost:3000'', ''http://localhost:3001'',
       ''http://localhost:3002'', ''http://localhost:3003''])"
    by (simp add: next_config_def localhost_port_def digit_val_def)
qed

section \<open>The page file and the content glob\<close>

text \<open>
  What the pattern takes: every file whose name ends in one of the four extensions, in
  \<^verbatim>\<open>app\<close> itself or in any chain of directories below it (names that are empty or
  start with a dot apart).
\<close>

lemma split_on_no_sep: "d \<notin> set a \<Longrightarrow> split_on d a = [a]"
  by (induction a) auto

lemma split_on_sep: "d \<notin> set a \<Longrightarrow> split_on d (a @ d # r) = a # split_on d r"
  by (induction a) auto

lemma split_on_dirs:
  "list_all (\<lambda>s. d \<notin> set s) ds \<Longrightarrow>
   split_on d (concat (map (\<lambda>s. s @ [d]) ds) @ r) = ds @ split_on d r"
  by (induction ds) (auto simp: split_on_sep)

lemma wild_star_skip: "wild_match ps t \<Longrightarrow> wild_match (CHR ''*'' # ps) (n @ t)"
  by (induction n) auto

lemma globstar_skip:
  "list_all (\<lambda>s. s \<noteq> [] \<and> \<not> hidden s) ds \<Longrightarrow> segs_match (''**'' # ps) ss \<Longrightarrow>
   segs_match (''**'' # ps) (ds @ ss)"
  by (induction ds) auto

lemma expand_content_glob:
  "brace_expand ''app/**/*.{js,ts,jsx,tsx}'' =
     [''app/**/*.js'', ''app/**/*.ts'', ''app/**/*.jsx'', ''app/**/*.tsx'']"
  by simp

lemma content_glob_matches_app_files:
  assumes ext: "ext \<in> {''js'', ''ts'', ''jsx'', ''tsx''}"
    and name: "name \<noteq> []" "\<not> hidden name" "CHR ''/'' \<notin> set name"
    and dirs: "list_all (\<lambda>s. s \<noteq> [] \<and> \<not> hidden s \<and> CHR ''/'' \<notin> set s) dirs"
  shows "glob_match ''./app/**/*.{js,ts,jsx,tsx}''
           (''app/'' @ concat (map (\<lambda>s. s @ ''/'') dirs) @ name @ ''.'' @ ext)"
proof -
  let ?file = "name @ ''.'' @ ext"
  have nosl: "CHR ''/'' \<notin> set ?file" using ext name by auto
  have d1: "list_all (\<lambda>s. CHR ''/'' \<notin> set s) dirs"
    and d2: "list_all (\<lambda>s. s \<noteq> [] \<and> \<not> hidden s) dirs"
    using dirs by (simp_all add: list_all_iff)
  have sp: "split_on CHR ''/'' (''app/'' @ concat (map (\<lambda>s. s @ ''/'') dirs) @ ?file)
      = ''app'' # dirs @ [?file]"
    using split_on_sep [of "CHR ''/''" "''app''" "concat (map (\<lambda>s. s @ ''/'') dirs) @ ?file"]
      split_on_dirs [OF d1, of ?file] split_on_no_sep [OF nosl] by simp
  have w: "wild_match (CHR ''*'' # ''.'' @ ext) ?file"
    using ext by (intro wild_star_skip) auto
  have nh: "\<not> hidden ?file" "?file \<noteq> []" using name by (auto simp: hidden_def split: list.splits)
  have sm: "seg_match (''*.'' @ ext) ?file"
    using w nh by (simp add: seg_match_def)
  have "segs_match [''**'', ''*.'' @ ext] [?file]" using sm by simp
  from globstar_skip [OF d2 this]
  have "segs_match (''**'' # [''*.'' @ ext]) (dirs @ [?file])" .
  then have m: "segs_match [''app'', ''**'', ''*.'' @ ext] (''app'' # dirs @ [?file])"
    by (simp add: seg_match_def hidden_def)
  have mem: "''app/**/*.'' @ ext \<in> set (brace_expand ''app/**/*.{js,ts,jsx,tsx}'')"
    using ext unfolding expand_content_glob by auto
  have spq: "split_on CHR ''/'' (''app/**/*.'' @ ext) = [''app'', ''**'', ''*.'' @ ext]"
    using ext by auto
  have sp1: "strip_dot_slash (''app/'' @ concat (map (\<lambda>s. s @ ''/'') dirs) @ ?file)
     = ''app/'' @ concat (map (\<lambda>s. s @ ''/'') dirs) @ ?file"
    by (simp add: strip_dot_slash_def)
  have sp2: "strip_dot_slash ''./app/**/*.{js,ts,jsx,tsx}'' = ''app/**/*.{js,ts,jsx,tsx}''"
    by (simp add: strip_dot_slash_def)
  have "segs_match (split_on CHR ''/'' (''app/**/*.'' @ ext))
          (split_on CHR ''/'' (''app/'' @ concat (map (\<lambda>s. s @ ''/'') dirs) @ ?file))"
    unfolding spq sp by (rule m)
  with mem show ?thesis
    unfolding glob_match_def list_ex_iff sp1 sp2 by blast
qed

lemma content_glob_rejects:
  "\<not> glob_match ''./app/**/*.{js,ts,jsx,tsx}'' ''next.config.js'' \<and>
   \<not> glob_match ''./app/**/*.{js,ts,jsx,tsx}'' ''app/globals.css'' \<and>
   \<not> glob_match ''./app/**/*.{js,ts,jsx,tsx}'' ''pages/index.tsx''"
  by (simp add: glob_match_def strip_dot_slash_def seg_match_def hidden_def)

lemma content_glob_nested:
  "glob_match ''./app/**/*.{js,ts,jsx,tsx}'' ''./app/games/calls/page.jsx''"
  by (simp add: glob_match_def strip_dot_slash_def seg_match_def hidden_def)

text \<open>
  Claim C10. The one pattern of the content list matches the path of the page component,
  \<^verbatim>\<open>app/page.tsx\<close>, taken from the directory of the configuration (with or without a
  leading \<^verbatim>\<open>./\<close>): the file that carries the class names is among the scanned files.
\<close>

theorem page_file_in_content:
  "\<exists>g. get_path tailwind_config [''content''] = Some (JArr [JStr g]) \<and>
     glob_match g ''app/page.tsx'' \<and> glob_match g ''./app/page.tsx''"
  by (simp add: tailwind_config_def glob_match_def strip_dot_slash_def seg_match_def
      hidden_def)

end
